theory Spec2Isabelle
  imports Complex_Main
begin

section \<open>JavaScript numbers and the Math built-ins\<close>

text \<open>
  The service computes on JavaScript numbers. A number is modelled as a real with the three
  special values the code can meet: \<open>NaN\<close> (what \<open>parseFloat\<close> and \<open>parseInt\<close> return on
  text that is no number) and the two infinities (\<open>parseFloat "Infinity"\<close>). Finite
  arithmetic is exact: rounding error and overflow of IEEE doubles are not modelled, and
  \<open>-0\<close> is \<open>0\<close>.
\<close>

datatype jsnum = NaN | PInf | NInf | Fin real

datatype error = Error string | SyntaxError | RangeError

fun isNaN :: "jsnum \<Rightarrow> bool" where
  "isNaN NaN = True"
| "isNaN _ = False"

text \<open>\<open>!x\<close> on a number is true exactly for \<open>0\<close> and \<open>NaN\<close>; \<open>js_truthy\<close> is its negation.\<close>

fun js_truthy :: "jsnum \<Rightarrow> bool" where
  "js_truthy NaN = False"
| "js_truthy (Fin x) = (x \<noteq> 0)"
| "js_truthy _ = True"

fun js_negative :: "jsnum \<Rightarrow> bool" where
  "js_negative NInf = True"
| "js_negative (Fin x) = (x < 0)"
| "js_negative _ = False"

fun js_neg :: "jsnum \<Rightarrow> jsnum" where
  "js_neg NaN = NaN"
| "js_neg PInf = NInf"
| "js_neg NInf = PInf"
| "js_neg (Fin x) = Fin (- x)"

fun js_add :: "jsnum \<Rightarrow> jsnum \<Rightarrow> jsnum" where
  "js_add NaN _ = NaN"
| "js_add _ NaN = NaN"
| "js_add (Fin a) (Fin b) = Fin (a + b)"
| "js_add PInf NInf = NaN"
| "js_add NInf PInf = NaN"
| "js_add PInf _ = PInf"
| "js_add _ PInf = PInf"
| "js_add NInf _ = NInf"
| "js_add _ NInf = NInf"

definition js_sub :: "jsnum \<Rightarrow> jsnum \<Rightarrow> jsnum" where
  "js_sub a b = js_add a (js_neg b)"

fun js_mul :: "jsnum \<Rightarrow> jsnum \<Rightarrow> jsnum" where
  "js_mul NaN _ = NaN"
| "js_mul _ NaN = NaN"
| "js_mul (Fin a) (Fin b) = Fin (a * b)"
| "js_mul a b =
     (if a = Fin 0 \<or> b = Fin 0 then NaN
      else if js_negative a = js_negative b then PInf else NInf)"

fun js_div :: "jsnum \<Rightarrow> jsnum \<Rightarrow> jsnum" where
  "js_div NaN _ = NaN"
| "js_div _ NaN = NaN"
| "js_div (Fin a) (Fin b) =
     (if b \<noteq> 0 then Fin (a / b)
      else if a = 0 then NaN else if 0 < a then PInf else NInf)"
| "js_div (Fin a) _ = Fin 0"
| "js_div a (Fin b) = (if js_negative a = (b < 0) then PInf else NInf)"
| "js_div _ _ = NaN"

text \<open>Every comparison with \<open>NaN\<close> is false.\<close>

fun js_lt :: "jsnum \<Rightarrow> jsnum \<Rightarrow> bool" where
  "js_lt NaN _ = False"
| "js_lt _ NaN = False"
| "js_lt (Fin a) (Fin b) = (a < b)"
| "js_lt NInf NInf = False"
| "js_lt NInf _ = True"
| "js_lt _ NInf = False"
| "js_lt PInf _ = False"
| "js_lt _ PInf = True"

definition js_gt :: "jsnum \<Rightarrow> jsnum \<Rightarrow> bool" where
  "js_gt a b = js_lt b a"

fun Math_round :: "jsnum \<Rightarrow> jsnum" where
  "Math_round (Fin x) = Fin (of_int \<lfloor>x + 1 / 2\<rfloor>)"
| "Math_round a = a"

fun Math_floor :: "jsnum \<Rightarrow> jsnum" where
  "Math_floor (Fin x) = Fin (of_int \<lfloor>x\<rfloor>)"
| "Math_floor a = a"

fun Math_max :: "jsnum \<Rightarrow> jsnum \<Rightarrow> jsnum" where
  "Math_max NaN _ = NaN"
| "Math_max _ NaN = NaN"
| "Math_max a b = (if js_lt a b then b else a)"

fun Math_min :: "jsnum \<Rightarrow> jsnum \<Rightarrow> jsnum" where
  "Math_min NaN _ = NaN"
| "Math_min _ NaN = NaN"
| "Math_min a b = (if js_lt b a then b else a)"

text \<open>
  \<open>Math.random()\<close> reads the next value of a random source and advances it. The source is
  the sequence of values still to come; each of them lies in \<open>[0, 1)\<close>.
\<close>

type_synonym rng = "nat \<Rightarrow> real"

definition Math_random :: "rng \<Rightarrow> jsnum \<times> rng" where
  "Math_random g = (Fin (g 0), \<lambda>n. g (Suc n))"

section \<open>Blood pressure estimation\<close>

text \<open>
  \<open>ecgSamples\<close> is what \<open>JSON.parse\<close> made of field8: \<open>None\<close> is \<open>null\<close>, \<open>Some xs\<close> an
  array of numbers. JSON has no literal for \<open>NaN\<close> or an infinity, so the samples are reals.
\<close>

record bp =
  systolic :: jsnum
  diastolic :: jsnum

definition clampValue :: "jsnum \<Rightarrow> jsnum \<Rightarrow> jsnum \<Rightarrow> jsnum" where
  "clampValue v lo hi = Math_max lo (Math_min hi v)"

definition calculateEcgVariability :: "real list option \<Rightarrow> real" where
  "calculateEcgVariability ecgSamples =
     (case ecgSamples of
        None \<Rightarrow> 0
      | Some xs \<Rightarrow>
          if length xs < 10 then 0
          else
            let mean = foldl (\<lambda>sum v. sum + v) 0 xs / real (length xs);
                squaredDiffs = map (\<lambda>v. (v - mean) ^ 2) xs;
                avgSquaredDiff =
                  foldl (\<lambda>sum v. sum + v) 0 squaredDiffs / real (length squaredDiffs);
                stdDev = sqrt avgSquaredDiff
            in min (stdDev / 0.5) 1)"

text \<open>
  \<open>calculateBP\<close> and its locals: the two baselines, the random variation of the degenerate
  branch, the heart-rate and SpO2 effects, and the test of the first \<open>if\<close>
  (\<open>insufficient\<close>). The random source is passed in and returned.
\<close>

definition baselineSystolic :: jsnum where
  "baselineSystolic = Fin 120"

definition baselineDiastolic :: jsnum where
  "baselineDiastolic = Fin 80"

definition randomVariation :: "rng \<Rightarrow> jsnum \<times> rng" where
  "randomVariation g =
     (case Math_random g of
        (r, g') \<Rightarrow> (js_sub (Math_floor (js_mul r (Fin 10))) (Fin 5), g'))"

definition heartRateEffect :: "jsnum \<Rightarrow> jsnum" where
  "heartRateEffect heartRate =
     (if js_lt heartRate (Fin 60)
      then js_mul (Fin (- 10)) (js_sub (Fin 1) (js_div heartRate (Fin 60)))
      else if js_gt heartRate (Fin 100)
      then js_mul (Fin 15) (js_div (js_sub heartRate (Fin 100)) (Fin 50))
      else Fin 0)"

definition spo2Effect :: "jsnum \<Rightarrow> jsnum" where
  "spo2Effect spo2 =
     (if js_lt spo2 (Fin 95)
      then js_mul (Fin 5) (js_div (js_sub (Fin 95) spo2) (Fin 5))
      else Fin 0)"

definition insufficient :: "real list option \<Rightarrow> jsnum \<Rightarrow> bool" where
  "insufficient ecgSamples heartRate =
     (case ecgSamples of
        None \<Rightarrow> True
      | Some xs \<Rightarrow> length xs < 10 \<or> \<not> js_truthy heartRate \<or> isNaN heartRate)"

definition calculateBP :: "rng \<Rightarrow> real list option \<Rightarrow> jsnum \<Rightarrow> jsnum \<Rightarrow> bp \<times> rng" where
  "calculateBP g ecgSamples heartRate spo2 =
     (if insufficient ecgSamples heartRate then
        (case randomVariation g of
           (v1, g1) \<Rightarrow>
             (case randomVariation g1 of
                (v2, g2) \<Rightarrow>
                  (\<lparr>systolic = js_add baselineSystolic v1,
                    diastolic = js_add baselineDiastolic v2\<rparr>, g2)))
      else
        let ecgVariability = calculateEcgVariability ecgSamples;
            hrEffect = heartRateEffect heartRate;
            oxEffect = spo2Effect spo2;
            ecgEffect = Fin (ecgVariability * 10);
            ageEffect = Fin 0;
            sys = Math_round
                    (js_add (js_add (js_add (js_add baselineSystolic
                       (js_mul hrEffect (Fin 0.6))) (js_mul oxEffect (Fin 0.2)))
                       (js_mul ecgEffect (Fin 0.2))) ageEffect);
            dia = Math_round
                    (js_add (js_add (js_add (js_add baselineDiastolic
                       (js_mul hrEffect (Fin 0.4))) (js_mul oxEffect (Fin 0.1)))
                       (js_mul ecgEffect (Fin 0.1))) ageEffect)
        in (\<lparr>systolic = clampValue sys (Fin 80) (Fin 200),
             diastolic = clampValue dia (Fin 40) (Fin 120)\<rparr>, g))"


section \<open>Reading numbers out of text\<close>

text \<open>
  The feed delivers every field as text (or \<open>null\<close>, here \<open>None\<close>). \<open>parseFloat\<close> and
  \<open>parseInt\<close> are the ECMAScript built-ins: leading white space is skipped, the longest
  prefix that is a literal is read and the rest is ignored; text with no such prefix gives
  \<open>NaN\<close>. Characters are ASCII.
\<close>

definition is_space :: "char \<Rightarrow> bool" where
  "is_space c = (c \<in> set [CHR '' '', CHR 0x09, CHR 0x0A, CHR 0x0B, CHR 0x0C, CHR 0x0D])"

definition is_digit :: "char \<Rightarrow> bool" where
  "is_digit c = (c \<in> set ''0123456789'')"

definition is_hex_digit :: "char \<Rightarrow> bool" where
  "is_hex_digit c = (c \<in> set ''0123456789abcdefABCDEF'')"

definition digit_val :: "char \<Rightarrow> nat" where
  "digit_val c =
     (if is_digit c then of_char c - 48
      else if c \<in> set ''abcdef'' then of_char c - 87
      else of_char c - 55)"

definition digits_val :: "nat \<Rightarrow> string \<Rightarrow> nat" where
  "digits_val radix ds = foldl (\<lambda>n c. radix * n + digit_val c) 0 ds"

definition split_sign :: "string \<Rightarrow> bool \<times> string" where
  "split_sign s =
     (case s of
        [] \<Rightarrow> (False, [])
      | c # r \<Rightarrow>
          if c = CHR ''-'' then (True, r)
          else if c = CHR ''+'' then (False, r)
          else (False, s))"

definition signed :: "bool \<Rightarrow> real \<Rightarrow> real" where
  "signed neg v = (if neg then - v else v)"

definition scale10 :: "real \<Rightarrow> int \<Rightarrow> real" where
  "scale10 m e = (if 0 \<le> e then m * 10 ^ nat e else m / 10 ^ nat (- e))"

text \<open>The exponent part \<open>e\<close>, \<open>E\<close> with a signed integer; anything else leaves the exponent 0.\<close>

definition exponent_part :: "string \<Rightarrow> int" where
  "exponent_part s =
     (case s of
        [] \<Rightarrow> 0
      | c # r \<Rightarrow>
          if c = CHR ''e'' \<or> c = CHR ''E'' then
            (case split_sign r of
               (neg, d) \<Rightarrow>
                 let ds = takeWhile is_digit d
                 in if ds = [] then 0
                    else if neg then - int (digits_val 10 ds) else int (digits_val 10 ds))
          else 0)"

definition parseFloat_text :: "string \<Rightarrow> jsnum" where
  "parseFloat_text s =
     (case split_sign (dropWhile is_space s) of
        (neg, u) \<Rightarrow>
          if take 8 u = ''Infinity'' then (if neg then NInf else PInf)
          else
            let ip = takeWhile is_digit u;
                r1 = dropWhile is_digit u;
                fp = (case r1 of
                        [] \<Rightarrow> []
                      | c # r \<Rightarrow> if c = CHR ''.'' then takeWhile is_digit r else []);
                r2 = (case r1 of
                        [] \<Rightarrow> []
                      | c # r \<Rightarrow> if c = CHR ''.'' then dropWhile is_digit r else r1)
            in if ip = [] \<and> fp = [] then NaN
               else
                 Fin (signed neg
                   (scale10
                      (real (digits_val 10 ip) + real (digits_val 10 fp) / 10 ^ length fp)
                      (exponent_part r2))))"

definition parseInt_text :: "string \<Rightarrow> jsnum" where
  "parseInt_text s =
     (case split_sign (dropWhile is_space s) of
        (neg, u) \<Rightarrow>
          let hex = (take 2 u = ''0x'' \<or> take 2 u = ''0X'');
              z = (if hex then takeWhile is_hex_digit (drop 2 u) else takeWhile is_digit u)
          in if z = [] then NaN
             else Fin (signed neg (real (digits_val (if hex then 16 else 10) z))))"

text \<open>A \<open>null\<close> field is converted to the text \<open>null\<close> first, which is no number.\<close>

definition parseFloat :: "string option \<Rightarrow> jsnum" where
  "parseFloat field = (case field of None \<Rightarrow> NaN | Some s \<Rightarrow> parseFloat_text s)"

definition parseInt :: "string option \<Rightarrow> jsnum" where
  "parseInt field = (case field of None \<Rightarrow> NaN | Some s \<Rightarrow> parseInt_text s)"

text \<open>
  \<open>===\<close> on numbers: \<open>NaN\<close> equals nothing, itself included.
\<close>

definition js_strict_eq :: "jsnum \<Rightarrow> jsnum \<Rightarrow> bool" where
  "js_strict_eq a b = (\<not> isNaN a \<and> \<not> isNaN b \<and> a = b)"

subsection \<open>JSON.parse on the ECG sample field\<close>

text \<open>
  field8 carries the ECG sample array: by the feed's field mapping its text is a JSON array
  of numbers, or \<open>null\<close>. \<open>JSON_parse\<close> reads exactly these texts, with JSON's strict
  number grammar and white space; every other text raises \<open>SyntaxError\<close>. JSON texts of
  another shape (objects, strings, nested arrays) are outside the feed's data model and
  are rejected here as well.
\<close>

definition is_json_space :: "char \<Rightarrow> bool" where
  "is_json_space c = (c \<in> set [CHR '' '', CHR 0x09, CHR 0x0A, CHR 0x0D])"

definition json_trim :: "string \<Rightarrow> string" where
  "json_trim s = rev (dropWhile is_json_space (rev (dropWhile is_json_space s)))"

fun split_commas :: "string \<Rightarrow> string list" where
  "split_commas [] = [[]]"
| "split_commas (c # cs) =
     (if c = CHR '','' then [] # split_commas cs
      else (case split_commas cs of
              [] \<Rightarrow> [[c]]
            | p # ps \<Rightarrow> (c # p) # ps))"

definition json_fraction :: "string \<Rightarrow> (string \<times> string) option" where
  "json_fraction s =
     (case s of
        [] \<Rightarrow> Some ([], [])
      | c # r \<Rightarrow>
          if c = CHR ''.'' then
            (if takeWhile is_digit r = [] then None
             else Some (takeWhile is_digit r, dropWhile is_digit r))
          else Some ([], s))"

definition json_exponent :: "string \<Rightarrow> int option" where
  "json_exponent s =
     (case s of
        [] \<Rightarrow> Some 0
      | c # r \<Rightarrow>
          if c = CHR ''e'' \<or> c = CHR ''E'' then
            (case split_sign r of
               (neg, d) \<Rightarrow>
                 if d = [] \<or> \<not> list_all is_digit d then None
                 else Some (if neg then - int (digits_val 10 d) else int (digits_val 10 d)))
          else None)"

definition json_number :: "string \<Rightarrow> real option" where
  "json_number s =
     (let neg = (take 1 s = ''-'');
          u = (if neg then drop 1 s else s);
          ip = takeWhile is_digit u
      in if ip = [] \<or> (1 < length ip \<and> take 1 ip = ''0'') then None
         else
           (case json_fraction (dropWhile is_digit u) of
              None \<Rightarrow> None
            | Some (fp, r2) \<Rightarrow>
                (case json_exponent r2 of
                   None \<Rightarrow> None
                 | Some e \<Rightarrow>
                     Some (signed neg
                       (scale10
                          (real (digits_val 10 ip) + real (digits_val 10 fp) / 10 ^ length fp)
                          e)))))"

definition JSON_parse :: "string \<Rightarrow> error + real list option" where
  "JSON_parse s =
     (let t = json_trim s
      in if t = ''null'' then Inr None
         else
           (case t of
              [] \<Rightarrow> Inl SyntaxError
            | c # r \<Rightarrow>
                if c = CHR ''['' \<and> r \<noteq> [] \<and> last r = CHR '']'' then
                  (let inner = butlast r
                   in if json_trim inner = [] then Inr (Some [])
                      else
                        (let parts = map (\<lambda>p. json_number (json_trim p)) (split_commas inner)
                         in (case those parts of
                               None \<Rightarrow> Inl SyntaxError
                             | Some xs \<Rightarrow> Inr (Some xs))))
                else Inl SyntaxError))"


section \<open>Feed records and the platform\<close>

record feed =
  created_at :: string
  field1 :: "string option"
  field2 :: "string option"
  field3 :: "string option"
  field4 :: "string option"
  field5 :: "string option"
  field6 :: "string option"
  field7 :: "string option"
  field8 :: "string option"

record thingspeak_data =
  feeds :: "feed list option"

text \<open>A value that is a number, a text, \<open>null\<close> or \<open>undefined\<close>.\<close>

datatype jsval = Undefined | Null | Num jsnum | Str string

fun jsval_truthy :: "jsval \<Rightarrow> bool" where
  "jsval_truthy (Num n) = js_truthy n"
| "jsval_truthy (Str s) = (s \<noteq> [])"
| "jsval_truthy _ = False"

record location =
  lat :: jsval
  lng :: jsval
  accuracy :: jsval
  isLastKnown :: bool
  timestamp :: jsval

text \<open>
  What the browser provides and the service only calls: dates (\<open>Date_parse\<close> is the time
  value of \<open>new Date(text)\<close>, \<open>None\<close> for an invalid date), the rendering of numbers as
  text, JSON for the cached location object, and whether \<open>localStorage.setItem\<close> fails. The
  definitions below take it as the parameter \<open>P\<close>.
\<close>

record platform =
  Date_parse :: "string \<Rightarrow> int option"
  toISOString :: "int \<Rightarrow> string"
  toLocaleString :: "int option \<Rightarrow> string"
  Number_toString :: "jsnum \<Rightarrow> string"
  toFixed :: "jsnum \<Rightarrow> nat \<Rightarrow> string"
  JSON_parse_object :: "string \<Rightarrow> error + location"
  JSON_stringify :: "location \<Rightarrow> string"
  quota_exceeded :: bool

type_synonym storage = "string \<Rightarrow> string option"

definition getItem :: "storage \<Rightarrow> string \<Rightarrow> string option" where
  "getItem st key = st key"

definition setItem :: "platform \<Rightarrow> storage \<Rightarrow> string \<Rightarrow> string \<Rightarrow> error + storage" where
  "setItem P st key v =
     (if quota_exceeded P then Inl (Error ''QuotaExceededError'') else Inr (st(key \<mapsto> v)))"

section \<open>Location resolver\<close>

text \<open>The test both the current reading and the history loop apply to a coordinate pair.\<close>

definition valid_fix :: "jsnum \<Rightarrow> jsnum \<Rightarrow> bool" where
  "valid_fix latitude longitude =
     (\<not> isNaN latitude \<and> \<not> isNaN longitude
      \<and> \<not> js_strict_eq latitude (Fin 0) \<and> \<not> js_strict_eq longitude (Fin 0))"

text \<open>The loop over the feed list: the first record with a fix, marked as last known.\<close>

fun historicalLocation :: "feed list \<Rightarrow> location option" where
  "historicalLocation [] = None"
| "historicalLocation (feed # rest) =
     (let lat = parseFloat (field5 feed);
          lng = parseFloat (field6 feed)
      in if valid_fix lat lng then
           Some \<lparr>lat = Num lat, lng = Num lng, accuracy = Num (Fin 15), isLastKnown = True,
                 timestamp = Str (created_at feed)\<rparr>
         else historicalLocation rest)"

text \<open>The final \<open>return\<close>: no location at all.\<close>

definition noLocation :: location where
  "noLocation =
     \<lparr>lat = Null, lng = Null, accuracy = Num (Fin 15), isLastKnown = True,
      timestamp = Undefined\<rparr>"

text \<open>
  The \<open>try\<close> block: the cache entry of the channel, if there is a non-empty one and it
  parses, with \<open>isLastKnown\<close> set; a parse error is caught and gives nothing.
\<close>

definition storedLocation :: "platform \<Rightarrow> storage \<Rightarrow> string \<Rightarrow> location option" where
  "storedLocation P st channelId =
     (case getItem st (''lastKnownLocation_'' @ channelId) of
        None \<Rightarrow> None
      | Some text \<Rightarrow>
          if text = [] then None
          else (case JSON_parse_object P text of
                  Inl e \<Rightarrow> None
                | Inr parsed \<Rightarrow> Some (parsed\<lparr>isLastKnown := True\<rparr>)))"

definition getLastValidLocation ::
  "platform \<Rightarrow> storage \<Rightarrow> feed list \<Rightarrow> string \<Rightarrow> location" where
  "getLastValidLocation P st fs channelId =
     (let latitude = parseFloat (case fs of [] \<Rightarrow> None | latestEntry # _ \<Rightarrow> field5 latestEntry);
          longitude = parseFloat (case fs of [] \<Rightarrow> None | latestEntry # _ \<Rightarrow> field6 latestEntry)
      in if valid_fix latitude longitude then
           \<lparr>lat = Num latitude, lng = Num longitude, accuracy = Num (Fin 15),
            isLastKnown = False,
            timestamp = (case fs of [] \<Rightarrow> Undefined | latestEntry # _ \<Rightarrow> Str (created_at latestEntry))\<rparr>
         else
           (case historicalLocation fs of
              Some found \<Rightarrow> found
            | None \<Rightarrow>
                (case storedLocation P st channelId of
                   Some cached \<Rightarrow> cached
                 | None \<Rightarrow> noLocation)))"

section \<open>The current-vitals snapshot\<close>

record vitals =
  v_temperature :: jsval
  v_alertLevel :: jsnum
  v_heartRate :: jsval
  v_spo2 :: jsval
  v_avgEcg :: jsval
  v_ecgSamples :: "real list"
  v_bp :: bp

record status =
  s_temperature :: string
  s_heartRate :: string
  s_spo2 :: string
  s_bp :: string
  s_alert :: string

record snapshot =
  snap_vitals :: vitals
  snap_location :: location
  snap_status :: status
  lastUpdated :: string

text \<open>
  A location with truthy coordinates is written to the cache; a failing write is caught and
  leaves the cache as it was.
\<close>

definition storeLocation :: "platform \<Rightarrow> storage \<Rightarrow> string \<Rightarrow> location \<Rightarrow> storage" where
  "storeLocation P st channelId locationData =
     (if jsval_truthy (lat locationData) \<and> jsval_truthy (lng locationData) then
        (case setItem P st (''lastKnownLocation_'' @ channelId) (JSON_stringify P locationData) of
           Inl e \<Rightarrow> st
         | Inr st' \<Rightarrow> st')
      else st)"

text \<open>
  The two object literals of the returned snapshot, \<open>vitals: {...}\<close> and \<open>status: {...}\<close>,
  over the locals of \<open>mapThingSpeakToPatientVitals\<close>.
\<close>

definition vitalsOf ::
  "platform \<Rightarrow> jsnum \<Rightarrow> jsnum \<Rightarrow> jsnum \<Rightarrow> jsnum \<Rightarrow> jsnum \<Rightarrow> real list option \<Rightarrow> bp \<Rightarrow> vitals" where
  "vitalsOf P temperature alertLevel heartRate spo2 avgEcg ecgSamples bp =
     \<lparr>v_temperature = (if isNaN temperature then Str ''--'' else Str (toFixed P temperature 1)),
      v_alertLevel = (if isNaN alertLevel then Fin 0 else alertLevel),
      v_heartRate = (if isNaN heartRate then Str ''--'' else Num (Math_round heartRate)),
      v_spo2 = (if isNaN spo2 then Str ''--'' else Num (Math_round spo2)),
      v_avgEcg = (if isNaN avgEcg then Str ''--'' else Num avgEcg),
      v_ecgSamples = (case ecgSamples of None \<Rightarrow> [] | Some xs \<Rightarrow> xs),
      v_bp = bp\<rparr>"

definition statusOf :: "jsnum \<Rightarrow> jsnum \<Rightarrow> jsnum \<Rightarrow> jsnum \<Rightarrow> bp \<Rightarrow> status" where
  "statusOf temperature alertLevel heartRate spo2 bp =
     \<lparr>s_temperature =
        (if js_gt temperature (Fin 37.8) then ''Elevated''
         else if js_lt temperature (Fin 35.5) then ''Low'' else ''Normal''),
      s_heartRate =
        (if js_gt heartRate (Fin 100) then ''Elevated''
         else if js_lt heartRate (Fin 60) then ''Low'' else ''Normal''),
      s_spo2 = (if js_lt spo2 (Fin 95) then ''Low'' else ''Normal''),
      s_bp =
        (if js_gt (systolic bp) (Fin 140) \<or> js_gt (diastolic bp) (Fin 90) then ''Elevated''
         else if js_lt (systolic bp) (Fin 90) \<or> js_lt (diastolic bp) (Fin 60) then ''Low''
         else ''Normal''),
      s_alert =
        (if js_strict_eq alertLevel (Fin 0) then ''Normal''
         else if js_strict_eq alertLevel (Fin 1) then ''Moderate Risk''
         else ''High Risk'')\<rparr>"

text \<open>\<open>JSON.parse(latestEntry.field8)\<close>: a \<open>null\<close> field parses to \<open>null\<close>.\<close>

definition latestSamples :: "feed \<Rightarrow> error + real list option" where
  "latestSamples latestEntry =
     (case field8 latestEntry of None \<Rightarrow> Inr None | Some text \<Rightarrow> JSON_parse text)"

definition mapThingSpeakToPatientVitals ::
  "platform \<Rightarrow> rng \<Rightarrow> storage \<Rightarrow> thingspeak_data \<Rightarrow> string
     \<Rightarrow> (error + snapshot option) \<times> storage \<times> rng" where
  "mapThingSpeakToPatientVitals P g st data channelId =
     (case feeds data of
        None \<Rightarrow> (Inr None, st, g)
      | Some [] \<Rightarrow> (Inr None, st, g)
      | Some (latestEntry # rest) \<Rightarrow>
          let locationData = getLastValidLocation P st (latestEntry # rest) channelId;
              st' = storeLocation P st channelId locationData;
              temperature = parseFloat (field1 latestEntry);
              alertLevel = parseInt (field2 latestEntry);
              heartRate = parseFloat (field3 latestEntry);
              spo2 = parseFloat (field4 latestEntry);
              avgEcg = parseFloat (field7 latestEntry)
          in (case latestSamples latestEntry of
                Inl e \<Rightarrow> (Inl e, st', g)
              | Inr ecgSamples \<Rightarrow>
                  (case calculateBP g ecgSamples heartRate spo2 of
                     (bp, g') \<Rightarrow>
                       (Inr (Some
                          \<lparr>snap_vitals =
                             vitalsOf P temperature alertLevel heartRate spo2 avgEcg ecgSamples bp,
                            snap_location = locationData,
                            snap_status = statusOf temperature alertLevel heartRate spo2 bp,
                            lastUpdated =
                              toLocaleString P (Date_parse P (created_at latestEntry))\<rparr>),
                        st', g'))))"

text \<open>
  The dashboard's own rendering of an alert level (\<open>getAlertStatusText\<close>), a \<open>switch\<close> whose
  default is \<open>Normal\<close>.
\<close>

definition getAlertStatusText :: "jsnum \<Rightarrow> string" where
  "getAlertStatusText alertLevel =
     (if js_strict_eq alertLevel (Fin 1) then ''Moderate Risk''
      else if js_strict_eq alertLevel (Fin 2) then ''High Risk''
      else ''Normal'')"


section \<open>CSV export\<close>

fun join :: "string \<Rightarrow> string list \<Rightarrow> string" where
  "join sep [] = []"
| "join sep [x] = x"
| "join sep (x # y # ys) = x @ sep @ join sep (y # ys)"

definition headers :: "string list" where
  "headers =
     [''timestamp'', ''temperature'', ''alertLevel'', ''heartRate'', ''spo2'', ''latitude'',
      ''longitude'', ''avgEcg'', ''systolicBP'', ''diastolicBP'']"

text \<open>\<open>feed.field8 ? JSON.parse(feed.field8) : []\<close>: a \<open>null\<close> or empty field is no samples.\<close>

definition ecgSamplesOf :: "feed \<Rightarrow> error + real list option" where
  "ecgSamplesOf feed =
     (case field8 feed of
        None \<Rightarrow> Inr (Some [])
      | Some text \<Rightarrow> if text = [] then Inr (Some []) else JSON_parse text)"

text \<open>\<open>new Date(text).toISOString()\<close> raises \<open>RangeError\<close> on an invalid date.\<close>

definition isoTimestamp :: "platform \<Rightarrow> string \<Rightarrow> error + string" where
  "isoTimestamp P text =
     (case Date_parse P text of None \<Rightarrow> Inl RangeError | Some t \<Rightarrow> Inr (toISOString P t))"

text \<open>
  The cells of one row, after the samples were parsed and the pressure computed. A number
  in a cell is rendered by \<open>join\<close>, that is by \<open>Number_toString\<close>.
\<close>

definition rowCells :: "platform \<Rightarrow> feed \<Rightarrow> string \<Rightarrow> bp \<Rightarrow> string list" where
  "rowCells P feed stamp bp =
     (let temperature = parseFloat (field1 feed);
          alertLevel = parseInt (field2 feed);
          heartRate = parseFloat (field3 feed);
          spo2 = parseFloat (field4 feed);
          latitude = parseFloat (field5 feed);
          longitude = parseFloat (field6 feed);
          avgEcg = parseFloat (field7 feed)
      in [stamp,
          if isNaN temperature then [] else toFixed P temperature 1,
          if isNaN alertLevel then [] else Number_toString P alertLevel,
          if isNaN heartRate then [] else Number_toString P (Math_round heartRate),
          if isNaN spo2 then [] else Number_toString P (Math_round spo2),
          if isNaN latitude then [] else Number_toString P latitude,
          if isNaN longitude then [] else Number_toString P longitude,
          if isNaN avgEcg then [] else Number_toString P avgEcg,
          Number_toString P (systolic bp),
          Number_toString P (diastolic bp)])"

text \<open>
  The body of the loop for one record: \<open>JSON.parse\<close> may raise, then the pressure is
  computed, then the row is built, where \<open>toISOString\<close> may raise.
\<close>

definition csvRow :: "platform \<Rightarrow> rng \<Rightarrow> feed \<Rightarrow> (error + string) \<times> rng" where
  "csvRow P g feed =
     (case ecgSamplesOf feed of
        Inl e \<Rightarrow> (Inl e, g)
      | Inr ecgSamples \<Rightarrow>
          (case calculateBP g ecgSamples (parseFloat (field3 feed)) (parseFloat (field4 feed)) of
             (bp, g') \<Rightarrow>
               (case isoTimestamp P (created_at feed) of
                  Inl e \<Rightarrow> (Inl e, g')
                | Inr stamp \<Rightarrow> (Inr (join '','' (rowCells P feed stamp bp)), g'))))"

text \<open>The \<open>forEach\<close> loop: an exception in one record leaves the loop.\<close>

fun csvRows :: "platform \<Rightarrow> rng \<Rightarrow> feed list \<Rightarrow> (error + string list) \<times> rng" where
  "csvRows P g [] = (Inr [], g)"
| "csvRows P g (feed # rest) =
     (case csvRow P g feed of
        (Inl e, g') \<Rightarrow> (Inl e, g')
      | (Inr row, g') \<Rightarrow>
          (case csvRows P g' rest of
             (Inl e, g'') \<Rightarrow> (Inl e, g'')
           | (Inr rows, g'') \<Rightarrow> (Inr (row # rows), g'')))"

definition convertThingSpeakDataToCSV ::
  "platform \<Rightarrow> rng \<Rightarrow> thingspeak_data option \<Rightarrow> (error + string option) \<times> rng" where
  "convertThingSpeakDataToCSV P g data =
     (case data of
        None \<Rightarrow> (Inr None, g)
      | Some d \<Rightarrow>
          (case feeds d of
             None \<Rightarrow> (Inr None, g)
           | Some [] \<Rightarrow> (Inr None, g)
           | Some (feed # rest) \<Rightarrow>
               (case csvRows P g (feed # rest) of
                  (Inl e, g') \<Rightarrow> (Inl e, g')
                | (Inr rows, g') \<Rightarrow>
                    (Inr (Some (join [CHR 0x0A] (join '','' headers # rows))), g'))))"

section \<open>Historical series\<close>





text \<open>
  The callback of the \<open>bp\<close> series with its \<open>try\<close> and \<open>catch\<close>, and the \<open>map\<close> over the
  records with the random source passed from one record to the next.
\<close>

definition bpOfFeed :: "rng \<Rightarrow> feed \<Rightarrow> bp option \<times> rng" where
  "bpOfFeed g feed =
     (case ecgSamplesOf feed of
        Inl e \<Rightarrow> (None, g)
      | Inr ecgSamples \<Rightarrow>
          (case calculateBP g ecgSamples (parseFloat (field3 feed)) (parseFloat (field4 feed)) of
             (bp, g') \<Rightarrow> (Some bp, g')))"

fun bpSeries :: "rng \<Rightarrow> feed list \<Rightarrow> bp option list \<times> rng" where
  "bpSeries g [] = ([], g)"
| "bpSeries g (feed # rest) =
     (case bpOfFeed g feed of
        (b, g') \<Rightarrow> (case bpSeries g' rest of (bs, g'') \<Rightarrow> (b # bs, g'')))"




section \<open>The specification's formulas\<close>






text \<open>
  The resolver's fall-through as the specification lists it: the first record of the list
  with a fix, else the cache entry, else the empty location.
\<close>

definition spec_fallThrough :: "platform \<Rightarrow> storage \<Rightarrow> feed list \<Rightarrow> string \<Rightarrow> location" where
  "spec_fallThrough P st fs channelId =
     (case find (\<lambda>feed. valid_fix (parseFloat (field5 feed)) (parseFloat (field6 feed))) fs of
        Some feed \<Rightarrow>
          \<lparr>lat = Num (parseFloat (field5 feed)), lng = Num (parseFloat (field6 feed)),
           accuracy = Num (Fin 15), isLastKnown = True, timestamp = Str (created_at feed)\<rparr>
      | None \<Rightarrow>
          (case st (''lastKnownLocation_'' @ channelId) of
             None \<Rightarrow> noLocation
           | Some text \<Rightarrow>
               if text = [] then noLocation
               else (case JSON_parse_object P text of
                       Inr parsed \<Rightarrow> parsed\<lparr>isLastKnown := True\<rparr>
                     | Inl e \<Rightarrow> noLocation)))"


text \<open>The snapshot of a result of \<open>mapThingSpeakToPatientVitals\<close>, if it holds one.\<close>

definition snapshotOf :: "(error + snapshot option) \<times> storage \<times> rng \<Rightarrow> snapshot option" where
  "snapshotOf r = (case fst r of Inl e \<Rightarrow> None | Inr s \<Rightarrow> s)"

section \<open>Sample inputs\<close>

text \<open>
  Concrete inputs for the evaluations below: an empty cache, a random source that always
  yields the same value, two sample arrays, a record with every field \<open>null\<close>, and a
  platform that knows one timestamp and renders the integer part of a number.
\<close>

definition empty_storage :: storage where
  "empty_storage = (\<lambda>key. None)"

definition const_rng :: "real \<Rightarrow> rng" where
  "const_rng r = (\<lambda>n. r)"



definition blank_feed :: feed where
  "blank_feed =
     \<lparr>created_at = ''2024-01-15T10:30:00Z'', field1 = None, field2 = None, field3 = None,
      field4 = None, field5 = None, field6 = None, field7 = None, field8 = None\<rparr>"

fun decimal :: "nat \<Rightarrow> string" where
  "decimal n =
     (if n < 10 then [''0123456789'' ! n]
      else decimal (n div 10) @ [''0123456789'' ! (n mod 10)])"

definition integer_text :: "jsnum \<Rightarrow> string" where
  "integer_text n =
     (case n of
        NaN \<Rightarrow> ''NaN''
      | PInf \<Rightarrow> ''Infinity''
      | NInf \<Rightarrow> ''-Infinity''
      | Fin x \<Rightarrow> if x < 0 then ''-'' @ decimal (nat \<lfloor>- x\<rfloor>) else decimal (nat \<lfloor>x\<rfloor>))"

definition sample_platform :: platform where
  "sample_platform =
     \<lparr>Date_parse = (\<lambda>text. if text = ''2024-01-15T10:30:00Z'' then Some 1705314600000 else None),
      toISOString = (\<lambda>t. ''2024-01-15T10:30:00.000Z''),
      toLocaleString = (\<lambda>t. ''1/15/2024, 10:30:00 AM''),
      Number_toString = integer_text,
      toFixed = (\<lambda>n d. integer_text n @ ''.0''),
      JSON_parse_object = (\<lambda>text. Inl SyntaxError),
      JSON_stringify = (\<lambda>l. ''{}''),
      quota_exceeded = False\<rparr>"

section \<open>Facts about numbers and parsing\<close>

lemma isNaN_iff: "isNaN n \<longleftrightarrow> n = NaN"
  by (cases n) simp_all

lemma Math_round_not_NaN: "n \<noteq> NaN \<Longrightarrow> Math_round n \<noteq> NaN"
  by (cases n) simp_all


lemmas parse_simps =
  parseFloat_def parseFloat_text_def parseInt_def parseInt_text_def split_sign_def is_space_def
  is_digit_def is_hex_digit_def digits_val_def digit_val_def signed_def scale10_def
  exponent_part_def

section \<open>ECG variability\<close>









section \<open>Blood pressure\<close>









lemma randomVariation_eq:
  "randomVariation g = (Fin (of_int (\<lfloor>g 0 * 10\<rfloor> - 5)), \<lambda>n. g (Suc n))"
  by (simp add: randomVariation_def Math_random_def js_sub_def)


lemma calculateBP_no_samples:
  "calculateBP (const_rng (1 / 2)) (Some []) hr ox =
     (\<lparr>systolic = Fin 120, diastolic = Fin 80\<rparr>, const_rng (1 / 2))"
  by (simp add: calculateBP_def insufficient_def randomVariation_eq const_rng_def
      baselineSystolic_def baselineDiastolic_def)







section \<open>The snapshot of the latest record\<close>

lemma map_returns:
  assumes "feeds data = Some (latestEntry # rest)"
    and "latestSamples latestEntry = Inr ecgSamples"
  shows "\<exists>snap st' g'.
           mapThingSpeakToPatientVitals P g st data channelId = (Inr (Some snap), st', g')
          \<and> snap_vitals snap =
              vitalsOf P (parseFloat (field1 latestEntry)) (parseInt (field2 latestEntry))
                (parseFloat (field3 latestEntry)) (parseFloat (field4 latestEntry))
                (parseFloat (field7 latestEntry)) ecgSamples
                (fst (calculateBP g ecgSamples (parseFloat (field3 latestEntry))
                   (parseFloat (field4 latestEntry))))
          \<and> snap_status snap =
              statusOf (parseFloat (field1 latestEntry)) (parseInt (field2 latestEntry))
                (parseFloat (field3 latestEntry)) (parseFloat (field4 latestEntry))
                (fst (calculateBP g ecgSamples (parseFloat (field3 latestEntry))
                   (parseFloat (field4 latestEntry))))"
  using assms unfolding mapThingSpeakToPatientVitals_def Let_def
  by (simp split: prod.splits)

lemma snapshotOf_returned:
  "mapThingSpeakToPatientVitals P g st data c = (Inr (Some snap), st', g')
     \<Longrightarrow> snapshotOf (mapThingSpeakToPatientVitals P g st data c) = Some snap"
  by (simp add: snapshotOf_def)

text \<open>
  Claim C4, as stated, maps every numeric-looking vital to the number \<open>parseFloat\<close>
  yields and every field that is no finite number to the sentinel. For the heart rate text
  \<open>72.6\<close> the snapshot holds 73, and for the SpO2 text \<open>Infinity\<close> it holds infinity.
\<close>

theorem snapshot_rounds_counterexample:
  "map_option (\<lambda>snap. (v_heartRate (snap_vitals snap), v_spo2 (snap_vitals snap)))
     (snapshotOf (mapThingSpeakToPatientVitals sample_platform (const_rng (1 / 2)) empty_storage
        \<lparr>feeds = Some [blank_feed\<lparr>field3 := Some ''72.6'', field4 := Some ''Infinity''\<rparr>]\<rparr>
        ''2740745''))
   = Some (Num (Fin 73), Num PInf)
   \<and> parseFloat (Some ''72.6'') = Fin 72.6 \<and> parseFloat (Some ''Infinity'') = PInf"
proof -
  let ?e = "blank_feed\<lparr>field3 := Some ''72.6'', field4 := Some ''Infinity''\<rparr>"
  have f: "feeds \<lparr>feeds = Some [?e]\<rparr> = Some (?e # [])" by simp
  have l: "latestSamples ?e = Inr None" by (simp add: latestSamples_def blank_feed_def)
  have p: "parseFloat (Some ''72.6'') = Fin 72.6" "parseFloat (Some ''Infinity'') = PInf"
    by (simp_all add: parse_simps)
  from map_returns [OF f l, of sample_platform "const_rng (1 / 2)" empty_storage "''2740745''"]
  obtain snap st' g' where
    r: "mapThingSpeakToPatientVitals sample_platform (const_rng (1 / 2)) empty_storage
          \<lparr>feeds = Some [?e]\<rparr> ''2740745'' = (Inr (Some snap), st', g')"
    and v: "v_heartRate (snap_vitals snap) = Num (Fin 73)" "v_spo2 (snap_vitals snap) = Num PInf"
    by (auto simp: vitalsOf_def blank_feed_def p)
  from snapshotOf_returned [OF r] v p show ?thesis by simp
qed

text \<open>
  Claim C4, amended. For every feed whose latest record has a field8 that is \<open>null\<close> or a
  JSON array of numbers, a snapshot is assembled, and each vital is derived from the number
  \<open>n\<close> that \<open>parseFloat\<close> (\<open>parseInt\<close> for the alert level) yields on its field: when
  \<open>n\<close> is \<open>NaN\<close> the vital is the sentinel \<open>--\<close> (0 for the alert level); otherwise the
  temperature is \<open>n.toFixed(1)\<close>, heart rate and SpO2 are \<open>Math.round(n)\<close>, and the
  average ECG and the alert level are \<open>n\<close> itself. No vital is \<open>NaN\<close>.
\<close>

theorem snapshot_fields:
  assumes "feeds data = Some (latestEntry # rest)"
    and "latestSamples latestEntry = Inr ecgSamples"
  shows "\<exists>snap st' g'.
           mapThingSpeakToPatientVitals P g st data channelId = (Inr (Some snap), st', g')
           \<and> v_temperature (snap_vitals snap) =
               (if parseFloat (field1 latestEntry) = NaN then Str ''--''
                else Str (toFixed P (parseFloat (field1 latestEntry)) 1))
           \<and> v_heartRate (snap_vitals snap) =
               (if parseFloat (field3 latestEntry) = NaN then Str ''--''
                else Num (Math_round (parseFloat (field3 latestEntry))))
           \<and> v_spo2 (snap_vitals snap) =
               (if parseFloat (field4 latestEntry) = NaN then Str ''--''
                else Num (Math_round (parseFloat (field4 latestEntry))))
           \<and> v_avgEcg (snap_vitals snap) =
               (if parseFloat (field7 latestEntry) = NaN then Str ''--''
                else Num (parseFloat (field7 latestEntry)))
           \<and> v_alertLevel (snap_vitals snap) =
               (if parseInt (field2 latestEntry) = NaN then Fin 0
                else parseInt (field2 latestEntry))
           \<and> v_heartRate (snap_vitals snap) \<noteq> Num NaN
           \<and> v_spo2 (snap_vitals snap) \<noteq> Num NaN
           \<and> v_avgEcg (snap_vitals snap) \<noteq> Num NaN
           \<and> v_alertLevel (snap_vitals snap) \<noteq> NaN"
proof -
  obtain snap st' g' where
    r: "mapThingSpeakToPatientVitals P g st data channelId = (Inr (Some snap), st', g')"
    and v: "snap_vitals snap =
              vitalsOf P (parseFloat (field1 latestEntry)) (parseInt (field2 latestEntry))
                (parseFloat (field3 latestEntry)) (parseFloat (field4 latestEntry))
                (parseFloat (field7 latestEntry)) ecgSamples
                (fst (calculateBP g ecgSamples (parseFloat (field3 latestEntry))
                   (parseFloat (field4 latestEntry))))"
    using map_returns [OF assms] by blast
  have 1: "v_temperature (snap_vitals snap) =
               (if parseFloat (field1 latestEntry) = NaN then Str ''--''
                else Str (toFixed P (parseFloat (field1 latestEntry)) 1))"
    by (simp add: v vitalsOf_def isNaN_iff)
  have 2: "v_heartRate (snap_vitals snap) =
               (if parseFloat (field3 latestEntry) = NaN then Str ''--''
                else Num (Math_round (parseFloat (field3 latestEntry))))"
    by (simp add: v vitalsOf_def isNaN_iff)
  have 3: "v_spo2 (snap_vitals snap) =
               (if parseFloat (field4 latestEntry) = NaN then Str ''--''
                else Num (Math_round (parseFloat (field4 latestEntry))))"
    by (simp add: v vitalsOf_def isNaN_iff)
  have 4: "v_avgEcg (snap_vitals snap) =
               (if parseFloat (field7 latestEntry) = NaN then Str ''--''
                else Num (parseFloat (field7 latestEntry)))"
    by (simp add: v vitalsOf_def isNaN_iff)
  have 5: "v_alertLevel (snap_vitals snap) =
               (if parseInt (field2 latestEntry) = NaN then Fin 0
                else parseInt (field2 latestEntry))"
    by (simp add: v vitalsOf_def isNaN_iff)
  have 6: "v_heartRate (snap_vitals snap) \<noteq> Num NaN"
    by (simp add: 2 Math_round_not_NaN)
  have 7: "v_spo2 (snap_vitals snap) \<noteq> Num NaN"
    by (simp add: 3 Math_round_not_NaN)
  have 8: "v_avgEcg (snap_vitals snap) \<noteq> Num NaN"
    by (simp add: 4)
  have 9: "v_alertLevel (snap_vitals snap) \<noteq> NaN"
    by (simp add: 5)
  from r 1 2 3 4 5 6 7 8 9 show ?thesis by blast
qed

text \<open>C4 (amended) at a record with an unreadable temperature, heart rate 72.6, ECG 0.42.\<close>

theorem snapshot_fields_witness:
  "map_option (\<lambda>snap. (v_temperature (snap_vitals snap), v_heartRate (snap_vitals snap),
        v_avgEcg (snap_vitals snap), v_alertLevel (snap_vitals snap)))
     (snapshotOf (mapThingSpeakToPatientVitals sample_platform (const_rng (1 / 2)) empty_storage
        \<lparr>feeds = Some [blank_feed\<lparr>field1 := Some ''n/a'', field3 := Some ''72.6'',
                                    field7 := Some ''0.42''\<rparr>]\<rparr> ''2740745''))
   = Some (Str ''--'', Num (Fin 73), Num (Fin 0.42), Fin 0)"
proof -
  let ?e = "blank_feed\<lparr>field1 := Some ''n/a'', field3 := Some ''72.6'', field7 := Some ''0.42''\<rparr>"
  have f: "feeds \<lparr>feeds = Some [?e]\<rparr> = Some (?e # [])" by simp
  have l: "latestSamples ?e = Inr None" by (simp add: latestSamples_def blank_feed_def)
  have p: "parseFloat (field1 ?e) = NaN" "parseFloat (field3 ?e) = Fin 72.6"
    "parseFloat (field7 ?e) = Fin 0.42" "parseInt (field2 ?e) = NaN"
    by (simp_all add: blank_feed_def parse_simps)
  from snapshot_fields [OF f l, of sample_platform "const_rng (1 / 2)" empty_storage "''2740745''"]
  obtain snap st' g' where
    r: "mapThingSpeakToPatientVitals sample_platform (const_rng (1 / 2)) empty_storage
          \<lparr>feeds = Some [?e]\<rparr> ''2740745'' = (Inr (Some snap), st', g')"
    and v: "v_temperature (snap_vitals snap) = Str ''--''"
      "v_heartRate (snap_vitals snap) = Num (Fin 73)"
      "v_avgEcg (snap_vitals snap) = Num (Fin 0.42)"
      "v_alertLevel (snap_vitals snap) = Fin 0"
    unfolding p by auto
  from snapshotOf_returned [OF r] v show ?thesis by simp
qed

text \<open>
  Claim C5 holds that a record whose field2 fails to parse gets alert level 0 and the alert
  text \<open>Normal\<close>. The code gives level 0 and the text \<open>High Risk\<close>: the parsed level is
  \<open>NaN\<close>, equal to neither 0 nor 1, so the last branch of the conditional is taken. The
  dashboard's \<open>getAlertStatusText\<close> gives \<open>Normal\<close> on the same level.
\<close>

theorem alert_text_unparsed_level:
  "map_option (\<lambda>snap. (v_alertLevel (snap_vitals snap), s_alert (snap_status snap)))
     (snapshotOf (mapThingSpeakToPatientVitals sample_platform (const_rng (1 / 2)) empty_storage
        \<lparr>feeds = Some [blank_feed\<lparr>field2 := Some ''n/a''\<rparr>]\<rparr> ''2740745''))
   = Some (Fin 0, ''High Risk'')
   \<and> getAlertStatusText (parseInt (Some ''n/a'')) = ''Normal''"
proof -
  let ?e = "blank_feed\<lparr>field2 := Some ''n/a''\<rparr>"
  have f: "feeds \<lparr>feeds = Some [?e]\<rparr> = Some (?e # [])" by simp
  have l: "latestSamples ?e = Inr None" by (simp add: latestSamples_def blank_feed_def)
  have p: "parseInt (Some ''n/a'') = NaN" by (simp add: parse_simps)
  from map_returns [OF f l, of sample_platform "const_rng (1 / 2)" empty_storage "''2740745''"]
  obtain snap st' g' where
    r: "mapThingSpeakToPatientVitals sample_platform (const_rng (1 / 2)) empty_storage
          \<lparr>feeds = Some [?e]\<rparr> ''2740745'' = (Inr (Some snap), st', g')"
    and v: "v_alertLevel (snap_vitals snap) = Fin 0" "s_alert (snap_status snap) = ''High Risk''"
    by (auto simp: vitalsOf_def statusOf_def blank_feed_def p js_strict_eq_def)
  have g: "getAlertStatusText (parseInt (Some ''n/a'')) = ''Normal''"
    by (simp add: p getAlertStatusText_def js_strict_eq_def)
  from snapshotOf_returned [OF r] v g show ?thesis by simp
qed



section \<open>Location resolver\<close>

lemma valid_fix_iff:
  "valid_fix a b \<longleftrightarrow> a \<noteq> NaN \<and> b \<noteq> NaN \<and> a \<noteq> Fin 0 \<and> b \<noteq> Fin 0"
  by (auto simp: valid_fix_def js_strict_eq_def isNaN_iff)

lemma historicalLocation_find:
  "historicalLocation fs =
     map_option
       (\<lambda>feed. \<lparr>lat = Num (parseFloat (field5 feed)), lng = Num (parseFloat (field6 feed)),
                accuracy = Num (Fin 15), isLastKnown = True, timestamp = Str (created_at feed)\<rparr>)
       (find (\<lambda>feed. valid_fix (parseFloat (field5 feed)) (parseFloat (field6 feed))) fs)"
  by (induction fs) (simp_all add: Let_def)

lemma historicalLocation_known: "historicalLocation fs = Some l \<Longrightarrow> isLastKnown l"
  by (auto simp: historicalLocation_find)

lemma storedLocation_known: "storedLocation P st c = Some l \<Longrightarrow> isLastKnown l"
  by (auto simp: storedLocation_def split: option.splits if_splits sum.splits)

lemma fallThrough_eq:
  "(case historicalLocation fs of
      Some found \<Rightarrow> found
    | None \<Rightarrow> (case storedLocation P st c of Some cached \<Rightarrow> cached | None \<Rightarrow> noLocation))
   = spec_fallThrough P st fs c"
  by (simp add: historicalLocation_find spec_fallThrough_def storedLocation_def getItem_def
      split: option.splits sum.splits)

lemma fallThrough_known: "isLastKnown (spec_fallThrough P st fs c)"
  unfolding fallThrough_eq [symmetric]
  by (auto simp: noLocation_def split: option.splits
      dest: historicalLocation_known storedLocation_known)

text \<open>
  Claim C6, as stated, accepts a coordinate pair only when both coordinates parse to finite
  numbers. The latitude text \<open>Infinity\<close> is accepted as the current fix.
\<close>

theorem resolver_accepts_infinity_counterexample:
  "getLastValidLocation sample_platform empty_storage
     [blank_feed\<lparr>field5 := Some ''Infinity'', field6 := Some ''5''\<rparr>] ''2740745''
   = \<lparr>lat = Num PInf, lng = Num (Fin 5), accuracy = Num (Fin 15), isLastKnown = False,
      timestamp = Str ''2024-01-15T10:30:00Z''\<rparr>"
proof -
  let ?e = "blank_feed\<lparr>field5 := Some ''Infinity'', field6 := Some ''5''\<rparr>"
  have p: "parseFloat (Some ''Infinity'') = PInf" "parseFloat (Some ''5'') = Fin 5"
    by (simp_all add: parse_simps)
  show ?thesis
    unfolding getLastValidLocation_def Let_def
    by (simp add: p valid_fix_iff blank_feed_def)
qed

text \<open>
  Claim C6, amended. The current record's coordinates are accepted (\<open>isLastKnown\<close> false)
  exactly when both parse to a number other than \<open>NaN\<close> and neither is 0. For every feed
  list whose most recent record has latitude 0 or longitude 0 the resolver falls through:
  to the first later record with such coordinates (marked \<open>isLastKnown\<close>), else to the
  cache entry, else to the location with \<open>null\<close> coordinates and accuracy 15.
\<close>

theorem resolver_zero_is_no_fix:
  "(isLastKnown (getLastValidLocation P st (latestEntry # rest) channelId) = False
      \<longleftrightarrow> parseFloat (field5 latestEntry) \<noteq> NaN \<and> parseFloat (field6 latestEntry) \<noteq> NaN
          \<and> parseFloat (field5 latestEntry) \<noteq> Fin 0 \<and> parseFloat (field6 latestEntry) \<noteq> Fin 0)
   \<and> (isLastKnown (getLastValidLocation P st (latestEntry # rest) channelId) = False \<longrightarrow>
        getLastValidLocation P st (latestEntry # rest) channelId
          = \<lparr>lat = Num (parseFloat (field5 latestEntry)),
             lng = Num (parseFloat (field6 latestEntry)), accuracy = Num (Fin 15),
             isLastKnown = False, timestamp = Str (created_at latestEntry)\<rparr>)
   \<and> (parseFloat (field5 latestEntry) = Fin 0 \<or> parseFloat (field6 latestEntry) = Fin 0 \<longrightarrow>
        getLastValidLocation P st (latestEntry # rest) channelId
          = spec_fallThrough P st (latestEntry # rest) channelId
        \<and> spec_fallThrough P st (latestEntry # rest) channelId
          = spec_fallThrough P st rest channelId)"
proof -
  let ?a = "parseFloat (field5 latestEntry)" and ?b = "parseFloat (field6 latestEntry)"
  have g: "getLastValidLocation P st (latestEntry # rest) channelId =
        (if valid_fix ?a ?b then
           \<lparr>lat = Num ?a, lng = Num ?b, accuracy = Num (Fin 15), isLastKnown = False,
            timestamp = Str (created_at latestEntry)\<rparr>
         else spec_fallThrough P st (latestEntry # rest) channelId)"
    unfolding getLastValidLocation_def Let_def fallThrough_eq by simp
  have 1: "isLastKnown (getLastValidLocation P st (latestEntry # rest) channelId) = False
      \<longleftrightarrow> ?a \<noteq> NaN \<and> ?b \<noteq> NaN \<and> ?a \<noteq> Fin 0 \<and> ?b \<noteq> Fin 0"
    using fallThrough_known [of P st "latestEntry # rest" channelId]
    by (simp add: g valid_fix_iff)
  have 2: "?a = Fin 0 \<or> ?b = Fin 0 \<longrightarrow>
        getLastValidLocation P st (latestEntry # rest) channelId
          = spec_fallThrough P st (latestEntry # rest) channelId"
    by (auto simp: g valid_fix_iff)
  have 3: "?a = Fin 0 \<or> ?b = Fin 0 \<longrightarrow>
        spec_fallThrough P st (latestEntry # rest) channelId = spec_fallThrough P st rest channelId"
    by (auto simp: spec_fallThrough_def valid_fix_iff)
  have 4: "isLastKnown (getLastValidLocation P st (latestEntry # rest) channelId) = False \<longrightarrow>
        getLastValidLocation P st (latestEntry # rest) channelId
          = \<lparr>lat = Num ?a, lng = Num ?b, accuracy = Num (Fin 15),
             isLastKnown = False, timestamp = Str (created_at latestEntry)\<rparr>"
    using fallThrough_known [of P st "latestEntry # rest" channelId]
    by (simp add: g)
  from 1 2 3 4 show ?thesis by blast
qed

text \<open>C6 (amended) at a current record with latitude 0 and an older record with a fix.\<close>

theorem resolver_zero_is_no_fix_witness:
  "getLastValidLocation sample_platform empty_storage
     [blank_feed\<lparr>field5 := Some ''0'', field6 := Some ''5''\<rparr>,
      blank_feed\<lparr>created_at := ''2024-01-15T10:15:00Z'', field5 := Some ''17.4'',
                 field6 := Some ''78.5''\<rparr>] ''2740745''
   = \<lparr>lat = Num (Fin 17.4), lng = Num (Fin 78.5), accuracy = Num (Fin 15), isLastKnown = True,
      timestamp = Str ''2024-01-15T10:15:00Z''\<rparr>"
proof -
  let ?e = "blank_feed\<lparr>field5 := Some ''0'', field6 := Some ''5''\<rparr>"
  let ?h = "blank_feed\<lparr>created_at := ''2024-01-15T10:15:00Z'', field5 := Some ''17.4'',
                 field6 := Some ''78.5''\<rparr>"
  have p: "parseFloat (Some ''0'') = Fin 0" "parseFloat (Some ''5'') = Fin 5"
    "parseFloat (Some ''17.4'') = Fin 17.4" "parseFloat (Some ''78.5'') = Fin 78.5"
    by (simp_all add: parse_simps)
  from resolver_zero_is_no_fix [of sample_platform empty_storage ?e "[?h]" "''2740745''"] p(1)
  have "getLastValidLocation sample_platform empty_storage [?e, ?h] ''2740745''
          = spec_fallThrough sample_platform empty_storage [?h] ''2740745''"
    by simp
  also have "\<dots> = \<lparr>lat = Num (Fin 17.4), lng = Num (Fin 78.5), accuracy = Num (Fin 15),
      isLastKnown = True, timestamp = Str ''2024-01-15T10:15:00Z''\<rparr>"
    unfolding spec_fallThrough_def by (simp add: p valid_fix_iff blank_feed_def)
  finally show ?thesis .
qed

section \<open>Historical series\<close>









section \<open>CSV export\<close>






text \<open>
  Claim C7 holds that a record with malformed sample JSON costs neither the historical
  series nor the CSV export their other records. The series gets a \<open>null\<close> pressure for the
  bad record and keeps the other one; the exporter has no handler in its loop and leaves
  with the \<open>SyntaxError\<close>, the row of the good record included.
\<close>

theorem csv_aborts_on_malformed_samples:
  "fst (convertThingSpeakDataToCSV sample_platform (const_rng (1 / 2))
          (Some \<lparr>feeds = Some [blank_feed, blank_feed\<lparr>field8 := Some ''[0.1,0.2''\<rparr>]\<rparr>))
     = Inl SyntaxError
   \<and> fst (bpSeries (const_rng (1 / 2)) [blank_feed, blank_feed\<lparr>field8 := Some ''[0.1,0.2''\<rparr>])
     = [Some \<lparr>systolic = Fin 120, diastolic = Fin 80\<rparr>, None]"
proof -
  let ?bad = "blank_feed\<lparr>field8 := Some ''[0.1,0.2''\<rparr>"
  have j: "JSON_parse ''[0.1,0.2'' = Inl SyntaxError"
    by (simp add: JSON_parse_def json_trim_def is_json_space_def)
  have b: "ecgSamplesOf ?bad = Inl SyntaxError"
    by (simp add: ecgSamplesOf_def j)
  have e: "ecgSamplesOf blank_feed = Inr (Some [])"
    by (simp add: ecgSamplesOf_def blank_feed_def)
  have d: "isoTimestamp sample_platform (created_at blank_feed) = Inr ''2024-01-15T10:30:00.000Z''"
    by (simp add: isoTimestamp_def sample_platform_def blank_feed_def)
  have r1: "\<exists>row. csvRow sample_platform (const_rng (1 / 2)) blank_feed
              = (Inr row, const_rng (1 / 2))"
    by (simp add: csvRow_def e d calculateBP_no_samples)
  have r2: "csvRow sample_platform (const_rng (1 / 2)) ?bad = (Inl SyntaxError, const_rng (1 / 2))"
    by (simp add: csvRow_def b)
  from r1 r2
  have "fst (csvRows sample_platform (const_rng (1 / 2)) [blank_feed, ?bad]) = Inl SyntaxError"
    by auto
  then have 1: "fst (convertThingSpeakDataToCSV sample_platform (const_rng (1 / 2))
          (Some \<lparr>feeds = Some [blank_feed, ?bad]\<rparr>)) = Inl SyntaxError"
    by (simp add: convertThingSpeakDataToCSV_def case_prod_beta split: sum.splits)
  have 2: "fst (bpSeries (const_rng (1 / 2)) [blank_feed, ?bad])
     = [Some \<lparr>systolic = Fin 120, diastolic = Fin 80\<rparr>, None]"
    by (simp add: bpOfFeed_def e b calculateBP_no_samples)
  from 1 2 show ?thesis by blast
qed




end
